theory Spec2Isabelle
  imports Main
begin

section \<open>JavaScript values, conversions and errors\<close>

text \<open>
  The values that flow through \<^verbatim>\<open>server.js\<close>: tool arguments, parsed response bodies and
  request bodies, all of them JSON values (or \<^verbatim>\<open>undefined\<close>). A number is kept as the text
  that the engine's conversion of a number to a string gives for it (\<open>JNum ''1e+21''\<close>), so
  that no arithmetic on doubles enters the model. An object is its list of own properties;
  a key occurs at most once, as after \<^verbatim>\<open>JSON.parse\<close>.
\<close>

datatype jsval =
    JUndefined
  | JNull
  | JBool bool
  | JNum string
  | JStr string
  | JArr "jsval list"
  | JObj "(string \<times> jsval) list"

text \<open>
  What a \<^verbatim>\<open>throw\<close> carries. \<open>Error m\<close> is \<^verbatim>\<open>new Error(m)\<close> (the library errors of the
  identity client and of \<^verbatim>\<open>fetch\<close> are of this shape too); \<open>TypeError\<close> and \<open>SyntaxError\<close>
  are raised by the engine (their message text here is a description, the engine's own
  wording differs); \<open>McpError code m\<close> is \<^verbatim>\<open>new McpError(code, m)\<close> of the protocol SDK.
\<close>

datatype js_error =
    Error string
  | TypeError string
  | SyntaxError string
  | McpError int string

type_synonym 'a outcome = "js_error + 'a"

fun showNat :: "nat \<Rightarrow> string" where
  "showNat n =
     (if n < 10 then [''0123456789'' ! n]
      else showNat (n div 10) @ [''0123456789'' ! (n mod 10)])"

declare showNat.simps [simp del]

definition showInt :: "int \<Rightarrow> string" where
  "showInt i = (if i < 0 then CHR ''-'' # showNat (nat (- i)) else showNat (nat i))"

text \<open>\<^verbatim>\<open>ErrorCode.MethodNotFound\<close> of the protocol SDK.\<close>

definition MethodNotFound :: int where
  "MethodNotFound = - 32601"

text \<open>
  \<^verbatim>\<open>error.message\<close>. The SDK's \<^verbatim>\<open>McpError\<close> constructor prefixes the message it is given
  with \<^verbatim>\<open>MCP error <code>: \<close>.
\<close>

fun message :: "js_error \<Rightarrow> string" where
  "message (Error m) = m"
| "message (TypeError m) = m"
| "message (SyntaxError m) = m"
| "message (McpError code m) = ''MCP error '' @ showInt code @ '': '' @ m"

text \<open>
  The string conversion of a template literal \<^verbatim>\<open>`${v}`\<close>. An array is the texts of its
  elements joined by commas (nothing for \<^verbatim>\<open>null\<close> and \<^verbatim>\<open>undefined\<close>). An object without
  an own property \<^verbatim>\<open>toString\<close> is \<^verbatim>\<open>[object Object]\<close>; with one, which in a JSON value
  is never a function, the conversion finds no method that returns a primitive value and
  throws a \<^verbatim>\<open>TypeError\<close>.
\<close>

fun toStr :: "jsval \<Rightarrow> string outcome" and joinElements :: "jsval list \<Rightarrow> string outcome" where
  "toStr JUndefined = Inr ''undefined''"
| "toStr JNull = Inr ''null''"
| "toStr (JBool b) = Inr (if b then ''true'' else ''false'')"
| "toStr (JNum s) = Inr s"
| "toStr (JStr s) = Inr s"
| "toStr (JArr xs) = joinElements xs"
| "toStr (JObj kvs) =
     (if ''toString'' \<in> set (map fst kvs)
      then Inl (TypeError ''Cannot convert object to primitive value'')
      else Inr ''[object Object]'')"
| "joinElements [] = Inr []"
| "joinElements (v # vs) =
     (case (if v = JUndefined \<or> v = JNull then Inr [] else toStr v) of
        Inl e \<Rightarrow> Inl e
      | Inr s \<Rightarrow>
          if vs = [] then Inr s
          else (case joinElements vs of Inl e \<Rightarrow> Inl e | Inr t \<Rightarrow> Inr (s @ '','' @ t)))"

text \<open>
  The truth value of \<^verbatim>\<open>if (v)\<close>, \<^verbatim>\<open>v && ...\<close> and \<^verbatim>\<open>v || ...\<close>. The numbers that count
  as false are zero (of either sign, both with the text \<open>0\<close>) and \<open>NaN\<close>.
\<close>

fun truthy :: "jsval \<Rightarrow> bool" where
  "truthy JUndefined = False"
| "truthy JNull = False"
| "truthy (JBool b) = b"
| "truthy (JNum s) = (s \<noteq> ''0'' \<and> s \<noteq> ''NaN'')"
| "truthy (JStr s) = (s \<noteq> [])"
| "truthy (JArr xs) = True"
| "truthy (JObj kvs) = True"

text \<open>
  Property access \<^verbatim>\<open>v.k\<close> for the keys the program reads (\<^verbatim>\<open>value\<close>, \<^verbatim>\<open>error\<close>,
  \<^verbatim>\<open>message\<close>): it throws on \<^verbatim>\<open>null\<close> and \<^verbatim>\<open>undefined\<close>, and is \<^verbatim>\<open>undefined\<close>
  where the property is missing.
\<close>

fun getProp :: "jsval \<Rightarrow> string \<Rightarrow> jsval outcome" where
  "getProp JUndefined k = Inl (TypeError (''Cannot read properties of undefined: '' @ k))"
| "getProp JNull k = Inl (TypeError (''Cannot read properties of null: '' @ k))"
| "getProp (JObj kvs) k = Inr (case map_of kvs k of None \<Rightarrow> JUndefined | Some v \<Rightarrow> v)"
| "getProp v k = Inr JUndefined"

text \<open>\<^verbatim>\<open>s.indexOf(pat) !== -1\<close>.\<close>

fun containsText :: "string \<Rightarrow> string \<Rightarrow> bool" where
  "containsText [] pat = (pat = [])"
| "containsText (c # cs) pat = (take (length pat) (c # cs) = pat \<or> containsText cs pat)"

section \<open>The credential core\<close>

record account =
  homeAccountId :: string
  username :: string

text \<open>The \<^verbatim>\<open>AuthenticationResult\<close> of the identity client, as far as the program reads it.\<close>

record auth_result =
  accessToken :: string

text \<open>
  The in-memory Token Cache of the client \<^verbatim>\<open>pca\<close>: the accounts with their credential
  records, in the order in which the client enumerates them.
\<close>

type_synonym token_cache = "(account \<times> string) list"

record request =
  url :: string
  httpMethod :: string
  authorization :: string
  contentType :: string
  reqBody :: "jsval option + string"

text \<open>
  The body of a request is \<open>Inl None\<close> when no body is set, \<open>Inl (Some v)\<close> for
  \<^verbatim>\<open>JSON.stringify(v)\<close>, and \<open>Inr s\<close> for the text \<open>s\<close>.

  A response as the program reads it: \<open>retryAfterHeader\<close> and \<open>contentTypeHeader\<close> are
  what \<^verbatim>\<open>headers.get("Retry-After")\<close> and \<^verbatim>\<open>headers.get("content-type")\<close> return
  (\<open>None\<close> for \<^verbatim>\<open>null\<close>), \<open>bodyText\<close> is what \<^verbatim>\<open>response.text()\<close> reads (the body
  is taken as received in full).
\<close>

record response =
  status :: nat
  statusText :: string
  retryAfterHeader :: "string option"
  contentTypeHeader :: "string option"
  bodyText :: string

text \<open>
  Everything outside \<^verbatim>\<open>server.js\<close> that its code calls, as parameters of the model:
  \<^item> \<open>parseJSON\<close>: \<^verbatim>\<open>JSON.parse\<close> (\<open>None\<close> when it throws);
  \<^item> \<open>deserialize\<close> and \<open>serialize\<close>: \<^verbatim>\<open>tokenCache.deserialize\<close> (from the blob and the
    cache in memory to the new cache, or the error it throws) and \<^verbatim>\<open>tokenCache.serialize\<close>;
  \<^item> \<open>silentFlow\<close> and \<open>deviceFlow\<close>: what \<^verbatim>\<open>acquireTokenSilent\<close> and
    \<^verbatim>\<open>acquireTokenByDeviceCode\<close> do on the cache in memory: the result (or the error
    thrown; \<open>None\<close> is a \<^verbatim>\<open>null\<close> result), the cache afterwards and whether it changed;
  \<^item> \<open>fetchResult\<close>: the response (or the error thrown) to the \<open>n\<close>-th call of \<^verbatim>\<open>fetch\<close>.
\<close>

record env =
  parseJSON :: "string \<Rightarrow> jsval option"
  deserialize :: "string \<Rightarrow> token_cache \<Rightarrow> token_cache outcome"
  serialize :: "token_cache \<Rightarrow> string"
  silentFlow :: "token_cache \<Rightarrow> account \<Rightarrow> auth_result option outcome \<times> token_cache \<times> bool"
  deviceFlow :: "token_cache \<Rightarrow> auth_result option outcome \<times> token_cache \<times> bool"
  fetchResult :: "nat \<Rightarrow> request \<Rightarrow> response outcome"

datatype auth_call =
    GetAllAccounts
  | AcquireTokenSilent account
  | AcquireTokenByDeviceCode

text \<open>\<^verbatim>\<open>response.headers.get("Retry-After") || 1\<close>: the header's text, or the number 1.\<close>

datatype retry_after = HeaderValue string | DefaultOne

datatype net_event =
    Fetch request
  | SetTimeout retry_after

datatype log_line =
    SilentFailed js_error
  | DeviceCodeFailed js_error
  | Throttled retry_after
  | ToolFailed js_error

text \<open>
  The state the program acts on: the Credential Store artifact at \<^verbatim>\<open>TOKEN_CACHE_PATH\<close>
  (\<open>None\<close> when the file does not exist), the cache of \<^verbatim>\<open>pca\<close> in memory, and what has been
  done so far: the data of every \<^verbatim>\<open>writeFileSync\<close>, the calls of the identity client, the
  calls of \<^verbatim>\<open>fetch\<close> and \<^verbatim>\<open>setTimeout\<close>, and the lines of \<^verbatim>\<open>console.error\<close>.
\<close>

record world =
  store :: "string option"
  memCache :: token_cache
  writes :: "string list"
  authLog :: "auth_call list"
  fetches :: nat
  netLog :: "net_event list"
  stderr :: "log_line list"

subsection \<open>The Credential Store\<close>

text \<open>
  \<^verbatim>\<open>fs.writeFileSync(path, data)\<close> opens the store with flag \<^verbatim>\<open>w\<close> (created, or truncated
  when it exists) and then writes the data, which the system may take in pieces of any
  size. The steps are kept apart, the data one character at a time, so that a write that
  is cut off anywhere can be looked at. Faults of the file system itself (a read or a write
  that throws) are left out.
\<close>

datatype fs_step = Truncate | WriteData string

fun fs_apply :: "fs_step \<Rightarrow> string option \<Rightarrow> string option" where
  "fs_apply Truncate f = Some []"
| "fs_apply (WriteData d) f = Some (case f of None \<Rightarrow> d | Some old \<Rightarrow> old @ d)"

definition writeFileSync_steps :: "string \<Rightarrow> fs_step list" where
  "writeFileSync_steps d = Truncate # map (\<lambda>c. WriteData [c]) d"

text \<open>\<open>writeFileSync_upto k\<close> is the write cut off after \<open>k\<close> steps.\<close>

definition writeFileSync_upto :: "nat \<Rightarrow> string \<Rightarrow> world \<Rightarrow> world" where
  "writeFileSync_upto k d w =
     w\<lparr>store := fold fs_apply (take k (writeFileSync_steps d)) (store w),
       writes := writes w @ [d]\<rparr>"

definition writeFileSync :: "string \<Rightarrow> world \<Rightarrow> world" where
  "writeFileSync d w = writeFileSync_upto (length (writeFileSync_steps d)) d w"

text \<open>
  \<^verbatim>\<open>cachePlugin.beforeCacheAccess\<close>: when the file exists, its text is deserialized into
  the cache in memory; an error of \<^verbatim>\<open>deserialize\<close> is not caught.
\<close>

definition beforeCacheAccess :: "env \<Rightarrow> world \<Rightarrow> world outcome" where
  "beforeCacheAccess E w =
     (case store w of
        None \<Rightarrow> Inr w
      | Some blob \<Rightarrow>
          (case deserialize E blob (memCache w) of
             Inl e \<Rightarrow> Inl e
           | Inr c \<Rightarrow> Inr (w\<lparr>memCache := c\<rparr>)))"

text \<open>\<^verbatim>\<open>cachePlugin.afterCacheAccess\<close>, with \<^verbatim>\<open>context.cacheHasChanged\<close> as argument.\<close>

definition afterCacheAccess :: "env \<Rightarrow> bool \<Rightarrow> world \<Rightarrow> world" where
  "afterCacheAccess E cacheHasChanged w =
     (if cacheHasChanged then writeFileSync (serialize E (memCache w)) w else w)"

text \<open>\<open>afterCacheAccess\<close> with its write cut off after \<open>k\<close> steps.\<close>

definition afterCacheAccess_upto :: "nat \<Rightarrow> env \<Rightarrow> bool \<Rightarrow> world \<Rightarrow> world" where
  "afterCacheAccess_upto k E cacheHasChanged w =
     (if cacheHasChanged then writeFileSync_upto k (serialize E (memCache w)) w else w)"

subsection \<open>The identity client and its cache plugin\<close>

text \<open>
  The contract of the identity client for a cache plugin: every access of the client to
  its cache calls \<^verbatim>\<open>beforeCacheAccess\<close>, works on the cache in memory, and then calls
  \<^verbatim>\<open>afterCacheAccess\<close> with \<^verbatim>\<open>cacheHasChanged\<close> saying whether the access wrote to the
  cache. An error thrown by \<^verbatim>\<open>beforeCacheAccess\<close> is the error of the client's call.
  Each call of the client is taken as one such access; \<^verbatim>\<open>getAllAccounts\<close> only reads.
\<close>

definition cacheAccess ::
  "env \<Rightarrow> (token_cache \<Rightarrow> 'a outcome \<times> token_cache \<times> bool) \<Rightarrow> world \<Rightarrow> 'a outcome \<times> world" where
  "cacheAccess E operation w =
     (case beforeCacheAccess E w of
        Inl e \<Rightarrow> (Inl e, w)
      | Inr w1 \<Rightarrow>
          (case operation (memCache w1) of
             (r, c, changed) \<Rightarrow> (r, afterCacheAccess E changed (w1\<lparr>memCache := c\<rparr>))))"

definition pca_getAllAccounts :: "env \<Rightarrow> world \<Rightarrow> account list outcome \<times> world" where
  "pca_getAllAccounts E w =
     cacheAccess E (\<lambda>c. (Inr (map fst c), c, False))
       (w\<lparr>authLog := authLog w @ [GetAllAccounts]\<rparr>)"

definition pca_acquireTokenSilent ::
  "env \<Rightarrow> account \<Rightarrow> world \<Rightarrow> auth_result option outcome \<times> world" where
  "pca_acquireTokenSilent E a w =
     cacheAccess E (\<lambda>c. silentFlow E c a)
       (w\<lparr>authLog := authLog w @ [AcquireTokenSilent a]\<rparr>)"

definition pca_acquireTokenByDeviceCode ::
  "env \<Rightarrow> world \<Rightarrow> auth_result option outcome \<times> world" where
  "pca_acquireTokenByDeviceCode E w =
     cacheAccess E (deviceFlow E)
       (w\<lparr>authLog := authLog w @ [AcquireTokenByDeviceCode]\<rparr>)"

subsection \<open>The Access Token Provider\<close>

text \<open>\<^verbatim>\<open>response.accessToken\<close>, which throws when the response is \<^verbatim>\<open>null\<close>.\<close>

definition readAccessToken :: "auth_result option outcome \<Rightarrow> string outcome" where
  "readAccessToken r =
     (case r of
        Inl e \<Rightarrow> Inl e
      | Inr None \<Rightarrow> Inl (TypeError ''Cannot read properties of null: accessToken'')
      | Inr (Some res) \<Rightarrow> Inr (accessToken res))"

text \<open>
  The first \<^verbatim>\<open>try\<close> of \<^verbatim>\<open>getAccessToken\<close>: \<open>Some\<close> token when it returns, \<open>None\<close> when its
  \<^verbatim>\<open>catch\<close> has logged the error and control goes on to the device code flow.
\<close>

definition trySilent :: "env \<Rightarrow> account \<Rightarrow> world \<Rightarrow> string option \<times> world" where
  "trySilent E a w =
     (case pca_acquireTokenSilent E a w of
        (r, w1) \<Rightarrow>
          (case readAccessToken r of
             Inr token \<Rightarrow> (Some token, w1)
           | Inl error \<Rightarrow> (None, w1\<lparr>stderr := stderr w1 @ [SilentFailed error]\<rparr>)))"

text \<open>The second \<^verbatim>\<open>try\<close>: the device code flow, whose error is logged and thrown again.\<close>

definition tryDeviceCode :: "env \<Rightarrow> world \<Rightarrow> string outcome \<times> world" where
  "tryDeviceCode E w =
     (case pca_acquireTokenByDeviceCode E w of
        (r, w1) \<Rightarrow>
          (case readAccessToken r of
             Inr token \<Rightarrow> (Inr token, w1)
           | Inl error \<Rightarrow> (Inl error, w1\<lparr>stderr := stderr w1 @ [DeviceCodeFailed error]\<rparr>)))"

definition getAccessToken :: "env \<Rightarrow> world \<Rightarrow> string outcome \<times> world" where
  "getAccessToken E w =
     (case pca_getAllAccounts E w of
        (Inl e, w1) \<Rightarrow> (Inl e, w1)
      | (Inr accounts, w1) \<Rightarrow>
          (case (if length accounts > 0 then trySilent E (accounts ! 0) w1 else (None, w1)) of
             (Some token, w2) \<Rightarrow> (Inr token, w2)
           | (None, w2) \<Rightarrow> tryDeviceCode E w2))"

section \<open>The Remote Resource API client\<close>

definition GRAPH_ENDPOINT :: string where
  "GRAPH_ENDPOINT = ''https://graph.microsoft.com/v1.0''"

text \<open>\<^verbatim>\<open>response.ok\<close>: a status from 200 to 299.\<close>

definition ok :: "response \<Rightarrow> bool" where
  "ok r = (200 \<le> status r \<and> status r \<le> 299)"

definition retryAfter :: "response \<Rightarrow> retry_after" where
  "retryAfter r =
     (case retryAfterHeader r of
        None \<Rightarrow> DefaultOne
      | Some s \<Rightarrow> if s = [] then DefaultOne else HeaderValue s)"








definition fetch :: "env \<Rightarrow> request \<Rightarrow> world \<Rightarrow> response outcome \<times> world" where
  "fetch E req w =
     (fetchResult E (fetches w) req,
      w\<lparr>fetches := Suc (fetches w), netLog := netLog w @ [Fetch req]\<rparr>)"

text \<open>The message built for a response that is not \<^verbatim>\<open>ok\<close>.\<close>

definition errorMessage :: "env \<Rightarrow> response \<Rightarrow> string" where
  "errorMessage E r =
     (let errorText = bodyText r;
          errorMessage = ''Graph API Error: '' @ showNat (status r) @ '' '' @ statusText r
      in case parseJSON E errorText of
           None \<Rightarrow> errorMessage @ '' - '' @ errorText
         | Some errorJson \<Rightarrow>
             (case getProp errorJson ''error'' of
                Inl e \<Rightarrow> errorMessage @ '' - '' @ errorText
              | Inr err \<Rightarrow>
                  if truthy err then
                    (case getProp err ''message'' of
                       Inl e \<Rightarrow> errorMessage @ '' - '' @ errorText
                     | Inr m \<Rightarrow>
                         if truthy m then
                           (case toStr m of
                              Inl e \<Rightarrow> errorMessage @ '' - '' @ errorText
                            | Inr s \<Rightarrow> errorMessage @ '' - '' @ s)
                         else errorMessage)
                  else errorMessage))"

text \<open>What \<^verbatim>\<open>graphRequest\<close> makes of the final response.\<close>

definition readResult :: "env \<Rightarrow> response \<Rightarrow> jsval outcome" where
  "readResult E r =
     (if \<not> ok r then Inl (Error (errorMessage E r))
      else
        (case contentTypeHeader r of
           None \<Rightarrow> Inr (JStr (bodyText r))
         | Some ct \<Rightarrow>
             if ct \<noteq> [] \<and> containsText ct ''application/json'' then
               (case parseJSON E (bodyText r) of
                  None \<Rightarrow> Inl (SyntaxError ''invalid json response body'')
                | Some j \<Rightarrow> Inr j)
             else Inr (JStr (bodyText r))))"

text \<open>The body of \<^verbatim>\<open>if (response.status === 429)\<close>: log, wait, fetch again.\<close>

definition retryOnce :: "env \<Rightarrow> request \<Rightarrow> response \<Rightarrow> world \<Rightarrow> response outcome \<times> world" where
  "retryOnce E options r w =
     fetch E options
       (w\<lparr>stderr := stderr w @ [Throttled (retryAfter r)],
          netLog := netLog w @ [SetTimeout (retryAfter r)]\<rparr>)"

definition graphOptions :: "string \<Rightarrow> string \<Rightarrow> jsval \<Rightarrow> string \<Rightarrow> request" where
  "graphOptions endpoint meth body token =
     \<lparr>url = GRAPH_ENDPOINT @ endpoint,
      httpMethod = meth,
      authorization = ''Bearer '' @ token,
      contentType = ''application/json'',
      reqBody = Inl (if truthy body then Some body else None)\<rparr>"

definition graphRequest ::
  "env \<Rightarrow> string \<Rightarrow> string \<Rightarrow> jsval \<Rightarrow> world \<Rightarrow> jsval outcome \<times> world" where
  "graphRequest E endpoint meth body w =
     (case getAccessToken E w of
        (Inl e, w1) \<Rightarrow> (Inl e, w1)
      | (Inr token, w1) \<Rightarrow>
          (let options = graphOptions endpoint meth body token
           in case fetch E options w1 of
                (Inl e, w2) \<Rightarrow> (Inl e, w2)
              | (Inr r, w2) \<Rightarrow>
                  (case (if status r = 429 then retryOnce E options r w2 else (Inr r, w2)) of
                     (Inl e, w3) \<Rightarrow> (Inl e, w3)
                   | (Inr r', w3) \<Rightarrow> (readResult E r', w3))))"

section \<open>The tool dispatcher\<close>

text \<open>
  \<^verbatim>\<open>request.params\<close> of a tool call: the name, and the arguments object (\<open>None\<close> when the
  request has none).
\<close>

record tool_request =
  params_name :: string
  params_arguments :: "(string \<times> jsval) list option"

text \<open>
  The text of a result: \<open>Stringify2 v\<close> is \<^verbatim>\<open>JSON.stringify(v, null, 2)\<close>, \<open>Stringify v\<close> is
  \<^verbatim>\<open>JSON.stringify(v)\<close>, \<open>Raw s\<close> is the string \<open>s\<close> itself.
\<close>

datatype text_payload = Stringify2 jsval | Stringify jsval | Raw string

record tool_result =
  content :: text_payload
  isError :: bool

definition textResult :: "text_payload \<Rightarrow> tool_result" where
  "textResult t = \<lparr>content = t, isError = False\<rparr>"

text \<open>\<^verbatim>\<open>const { k } = request.params.arguments\<close>.\<close>

definition destructure :: "(string \<times> jsval) list option \<Rightarrow> string \<Rightarrow> jsval outcome" where
  "destructure args k =
     (case args of
        None \<Rightarrow> Inl (TypeError (''Cannot destructure property of undefined: '' @ k))
      | Some kvs \<Rightarrow> Inr (case map_of kvs k of None \<Rightarrow> JUndefined | Some v \<Rightarrow> v))"

text \<open>The three ways in which a case turns the result of \<^verbatim>\<open>graphRequest\<close> into text.\<close>

definition returnValue :: "jsval outcome \<times> world \<Rightarrow> tool_result outcome \<times> world" where
  "returnValue rw =
     (case rw of
        (Inl e, w) \<Rightarrow> (Inl e, w)
      | (Inr result, w) \<Rightarrow>
          (case getProp result ''value'' of
             Inl e \<Rightarrow> (Inl e, w)
           | Inr v \<Rightarrow> (Inr (textResult (Stringify2 v)), w)))"

definition returnContent :: "jsval outcome \<times> world \<Rightarrow> tool_result outcome \<times> world" where
  "returnContent rw =
     (case rw of
        (Inl e, w) \<Rightarrow> (Inl e, w)
      | (Inr result, w) \<Rightarrow>
          (Inr (textResult (case result of JStr s \<Rightarrow> Raw s | _ \<Rightarrow> Stringify2 result)), w))"

definition returnJson :: "jsval outcome \<times> world \<Rightarrow> tool_result outcome \<times> world" where
  "returnJson rw =
     (case rw of
        (Inl e, w) \<Rightarrow> (Inl e, w)
      | (Inr result, w) \<Rightarrow> (Inr (textResult (Stringify2 result)), w))"

definition createPageRequest :: "string \<Rightarrow> string \<Rightarrow> string \<Rightarrow> request" where
  "createPageRequest sectionId htmlContent token =
     \<lparr>url = GRAPH_ENDPOINT @ ''/me/onenote/sections/'' @ sectionId @ ''/pages'',
      httpMethod = ''POST'',
      authorization = ''Bearer '' @ token,
      contentType = ''text/html'',
      reqBody = Inr (''<!DOCTYPE html><html><head><title>New Page</title></head><body>''
                     @ htmlContent @ ''</body></html>'')\<rparr>"

text \<open>
  The \<^verbatim>\<open>create_page\<close> case after its destructuring: the token first, then the two
  template literals (the address, then the body), then the \<^verbatim>\<open>fetch\<close>.
\<close>

definition createPage :: "env \<Rightarrow> jsval \<Rightarrow> jsval \<Rightarrow> world \<Rightarrow> tool_result outcome \<times> world" where
  "createPage E sectionId htmlContent w =
     (case getAccessToken E w of
        (Inl e, w1) \<Rightarrow> (Inl e, w1)
      | (Inr token, w1) \<Rightarrow>
          (case toStr sectionId of
             Inl e \<Rightarrow> (Inl e, w1)
           | Inr s \<Rightarrow>
               (case toStr htmlContent of
                  Inl e \<Rightarrow> (Inl e, w1)
                | Inr h \<Rightarrow>
                    (case fetch E (createPageRequest s h token) w1 of
                       (Inl e, w2) \<Rightarrow> (Inl e, w2)
                     | (Inr r, w2) \<Rightarrow>
                         if \<not> ok r then
                           (Inl (Error (''Failed to create page: '' @ statusText r)), w2)
                         else
                           (case parseJSON E (bodyText r) of
                              None \<Rightarrow> (Inl (SyntaxError ''invalid json response body''), w2)
                            | Some result \<Rightarrow> (Inr (textResult (Stringify2 result)), w2))))))"

text \<open>
  The \<^verbatim>\<open>switch\<close> inside the \<^verbatim>\<open>try\<close> of the handler of \<^verbatim>\<open>CallToolRequestSchema\<close>. The
  template literal of an endpoint is evaluated before \<^verbatim>\<open>graphRequest\<close> is called, so an
  argument without a string conversion ends the case there.
\<close>

definition toolSwitch :: "env \<Rightarrow> tool_request \<Rightarrow> world \<Rightarrow> tool_result outcome \<times> world" where
  "toolSwitch E rq w =
     (let name = params_name rq; args = params_arguments rq in
      if name = ''list_notebooks'' then
        returnValue (graphRequest E ''/me/onenote/notebooks'' ''GET'' JNull w)
      else if name = ''list_sections'' then
        (case destructure args ''notebookId'' of
           Inl e \<Rightarrow> (Inl e, w)
         | Inr notebookId \<Rightarrow>
             (case toStr notebookId of
                Inl e \<Rightarrow> (Inl e, w)
              | Inr s \<Rightarrow>
                  returnValue (graphRequest E
                    (''/me/onenote/notebooks/'' @ s @ ''/sections'') ''GET'' JNull w)))
      else if name = ''list_pages'' then
        (case destructure args ''sectionId'' of
           Inl e \<Rightarrow> (Inl e, w)
         | Inr sectionId \<Rightarrow>
             (case toStr sectionId of
                Inl e \<Rightarrow> (Inl e, w)
              | Inr s \<Rightarrow>
                  returnValue (graphRequest E
                    (''/me/onenote/sections/'' @ s @ ''/pages'') ''GET'' JNull w)))
      else if name = ''read_content'' then
        (case destructure args ''pageId'' of
           Inl e \<Rightarrow> (Inl e, w)
         | Inr pageId \<Rightarrow>
             (case toStr pageId of
                Inl e \<Rightarrow> (Inl e, w)
              | Inr s \<Rightarrow>
                  returnContent (graphRequest E
                    (''/me/onenote/pages/'' @ s @ ''/content'') ''GET'' JNull w)))
      else if name = ''create_notebook'' then
        (case destructure args ''displayName'' of
           Inl e \<Rightarrow> (Inl e, w)
         | Inr displayName \<Rightarrow>
             returnJson (graphRequest E ''/me/onenote/notebooks'' ''POST''
               (JObj [(''displayName'', displayName)]) w))
      else if name = ''create_section'' then
        (case destructure args ''notebookId'' of
           Inl e \<Rightarrow> (Inl e, w)
         | Inr notebookId \<Rightarrow>
             (case destructure args ''displayName'' of
                Inl e \<Rightarrow> (Inl e, w)
              | Inr displayName \<Rightarrow>
                  (case toStr notebookId of
                     Inl e \<Rightarrow> (Inl e, w)
                   | Inr s \<Rightarrow>
                       returnJson (graphRequest E
                         (''/me/onenote/notebooks/'' @ s @ ''/sections'') ''POST''
                         (JObj [(''displayName'', displayName)]) w))))
      else if name = ''create_page'' then
        (case destructure args ''sectionId'' of
           Inl e \<Rightarrow> (Inl e, w)
         | Inr sectionId \<Rightarrow>
             (case destructure args ''htmlContent'' of
                Inl e \<Rightarrow> (Inl e, w)
              | Inr htmlContent \<Rightarrow> createPage E sectionId htmlContent w))
      else (Inl (McpError MethodNotFound (''Unknown tool: '' @ name)), w))"

text \<open>The handler: the \<^verbatim>\<open>switch\<close>, and the \<^verbatim>\<open>catch\<close> that turns any error into a result.\<close>

definition callTool :: "env \<Rightarrow> tool_request \<Rightarrow> world \<Rightarrow> tool_result \<times> world" where
  "callTool E rq w =
     (case toolSwitch E rq w of
        (Inr res, w1) \<Rightarrow> (res, w1)
      | (Inl error, w1) \<Rightarrow>
          (\<lparr>content = Stringify (JObj [(''error'', JStr (message error))]), isError = True\<rparr>,
           w1\<lparr>stderr := stderr w1 @ [ToolFailed error]\<rparr>))"

section \<open>The operations as the tool list declares them\<close>

text \<open>The seven names of the \<^verbatim>\<open>tools\<close> list of the handler of \<^verbatim>\<open>ListToolsRequestSchema\<close>.\<close>

definition toolNames :: "string list" where
  "toolNames =
     [''list_notebooks'', ''list_sections'', ''list_pages'', ''read_content'',
      ''create_notebook'', ''create_section'', ''create_page'']"

text \<open>The value of argument \<open>k\<close> in an arguments object, \<^verbatim>\<open>undefined\<close> when it is missing.\<close>

definition arg :: "(string \<times> jsval) list \<Rightarrow> string \<Rightarrow> jsval" where
  "arg kvs k = (case map_of kvs k of None \<Rightarrow> JUndefined | Some v \<Rightarrow> v)"

text \<open>
  The arguments that an operation puts into a template literal, in the order in which
  the literals are evaluated.
\<close>

definition interpolated :: "string \<Rightarrow> string list" where
  "interpolated name =
     (if name = ''list_sections'' \<or> name = ''create_section'' then [''notebookId'']
      else if name = ''list_pages'' then [''sectionId'']
      else if name = ''read_content'' then [''pageId'']
      else if name = ''create_page'' then [''sectionId'', ''htmlContent'']
      else [])"

definition hasText :: "jsval \<Rightarrow> bool" where
  "hasText v = (case toStr v of Inl e \<Rightarrow> False | Inr s \<Rightarrow> True)"

text \<open>The text of a value in a template literal, where it has one.\<close>

definition textOf :: "jsval \<Rightarrow> string" where
  "textOf v = (case toStr v of Inl e \<Rightarrow> [] | Inr s \<Rightarrow> s)"

text \<open>Every argument that the operation interpolates has a string conversion.\<close>

definition renders :: "string \<Rightarrow> (string \<times> jsval) list \<Rightarrow> bool" where
  "renders name kvs = list_all (\<lambda>k. hasText (arg kvs k)) (interpolated name)"

text \<open>
  The call of \<^verbatim>\<open>graphRequest\<close> that each of the six cases other than \<^verbatim>\<open>create_page\<close>
  makes for an arguments object whose interpolated arguments have a text: endpoint, method
  and body, with no argument checked.
\<close>

definition graphCall :: "string \<Rightarrow> (string \<times> jsval) list \<Rightarrow> string \<times> string \<times> jsval" where
  "graphCall name kvs =
     (if name = ''list_notebooks'' then (''/me/onenote/notebooks'', ''GET'', JNull)
      else if name = ''list_sections'' then
        (''/me/onenote/notebooks/'' @ textOf (arg kvs ''notebookId'') @ ''/sections'', ''GET'', JNull)
      else if name = ''list_pages'' then
        (''/me/onenote/sections/'' @ textOf (arg kvs ''sectionId'') @ ''/pages'', ''GET'', JNull)
      else if name = ''read_content'' then
        (''/me/onenote/pages/'' @ textOf (arg kvs ''pageId'') @ ''/content'', ''GET'', JNull)
      else if name = ''create_notebook'' then
        (''/me/onenote/notebooks'', ''POST'', JObj [(''displayName'', arg kvs ''displayName'')])
      else
        (''/me/onenote/notebooks/'' @ textOf (arg kvs ''notebookId'') @ ''/sections'', ''POST'',
         JObj [(''displayName'', arg kvs ''displayName'')]))"

text \<open>
  The request that each operation is to hand to \<^verbatim>\<open>fetch\<close> for an arguments object, written
  out in full: the address under the Graph endpoint, the method, the two headers and the
  body. It is stated on its own, not through the functions above that build requests.
\<close>

definition requestOf :: "string \<Rightarrow> (string \<times> jsval) list \<Rightarrow> string \<Rightarrow> request" where
  "requestOf name kvs token =
     (if name = ''list_notebooks'' then
        \<lparr>url = ''https://graph.microsoft.com/v1.0/me/onenote/notebooks'',
         httpMethod = ''GET'', authorization = ''Bearer '' @ token,
         contentType = ''application/json'', reqBody = Inl None\<rparr>
      else if name = ''list_sections'' then
        \<lparr>url = ''https://graph.microsoft.com/v1.0/me/onenote/notebooks/''
                 @ textOf (arg kvs ''notebookId'') @ ''/sections'',
         httpMethod = ''GET'', authorization = ''Bearer '' @ token,
         contentType = ''application/json'', reqBody = Inl None\<rparr>
      else if name = ''list_pages'' then
        \<lparr>url = ''https://graph.microsoft.com/v1.0/me/onenote/sections/''
                 @ textOf (arg kvs ''sectionId'') @ ''/pages'',
         httpMethod = ''GET'', authorization = ''Bearer '' @ token,
         contentType = ''application/json'', reqBody = Inl None\<rparr>
      else if name = ''read_content'' then
        \<lparr>url = ''https://graph.microsoft.com/v1.0/me/onenote/pages/''
                 @ textOf (arg kvs ''pageId'') @ ''/content'',
         httpMethod = ''GET'', authorization = ''Bearer '' @ token,
         contentType = ''application/json'', reqBody = Inl None\<rparr>
      else if name = ''create_notebook'' then
        \<lparr>url = ''https://graph.microsoft.com/v1.0/me/onenote/notebooks'',
         httpMethod = ''POST'', authorization = ''Bearer '' @ token,
         contentType = ''application/json'',
         reqBody = Inl (Some (JObj [(''displayName'', arg kvs ''displayName'')]))\<rparr>
      else if name = ''create_section'' then
        \<lparr>url = ''https://graph.microsoft.com/v1.0/me/onenote/notebooks/''
                 @ textOf (arg kvs ''notebookId'') @ ''/sections'',
         httpMethod = ''POST'', authorization = ''Bearer '' @ token,
         contentType = ''application/json'',
         reqBody = Inl (Some (JObj [(''displayName'', arg kvs ''displayName'')]))\<rparr>
      else
        \<lparr>url = ''https://graph.microsoft.com/v1.0/me/onenote/sections/''
                 @ textOf (arg kvs ''sectionId'') @ ''/pages'',
         httpMethod = ''POST'', authorization = ''Bearer '' @ token,
         contentType = ''text/html'',
         reqBody = Inr (''<!DOCTYPE html><html><head><title>New Page</title></head><body>''
                        @ textOf (arg kvs ''htmlContent'') @ ''</body></html>'')\<rparr>)"

section \<open>A concrete environment\<close>

text \<open>
  Two accounts, an environment and a starting state on which the definitions above can be
  run. The environment's \<open>parseJSON\<close> knows two bodies (written here without the quotation
  marks of JSON); its \<open>deserialize\<close> knows three blobs and rejects every other text; silent
  renewal succeeds for every account without changing the cache; the device code flow
  succeeds and adds the account of \<open>alice\<close>; every \<^verbatim>\<open>fetch\<close> is answered with status 200.
\<close>

fun joinNames :: "string list \<Rightarrow> string" where
  "joinNames [] = []"
| "joinNames [s] = s"
| "joinNames (s # t # ss) = s @ '','' @ joinNames (t # ss)"

definition alice :: account where
  "alice = \<lparr>homeAccountId = ''id-a'', username = ''alice''\<rparr>"

definition bob :: account where
  "bob = \<lparr>homeAccountId = ''id-b'', username = ''bob''\<rparr>"

definition okResponse :: response where
  "okResponse =
     \<lparr>status = 200, statusText = ''OK'', retryAfterHeader = None,
      contentTypeHeader = Some ''application/json'', bodyText = ''{value:[]}''\<rparr>"

definition throttledResponse :: response where
  "throttledResponse =
     \<lparr>status = 429, statusText = ''Too Many Requests'', retryAfterHeader = Some ''2'',
      contentTypeHeader = Some ''application/json'',
      bodyText = ''{error:{message:Slow down}}''\<rparr>"

definition demoEnv :: env where
  "demoEnv =
     \<lparr>parseJSON = (\<lambda>s.
        if s = ''{value:[]}'' then Some (JObj [(''value'', JArr [])])
        else if s = ''{error:{message:Slow down}}''
          then Some (JObj [(''error'', JObj [(''message'', JStr ''Slow down'')])])
        else None),
      deserialize = (\<lambda>blob c.
        if blob = ''alice'' then Inr [(alice, ''secret-a'')]
        else if blob = ''alice,bob'' then Inr [(alice, ''secret-a''), (bob, ''secret-b'')]
        else if blob = ''bob,alice'' then Inr [(bob, ''secret-b''), (alice, ''secret-a'')]
        else Inl (SyntaxError ''Unexpected token'')),
      serialize = (\<lambda>c. joinNames (map (\<lambda>p. username (fst p)) c)),
      silentFlow = (\<lambda>c a. (Inr (Some \<lparr>accessToken = ''silent-'' @ username a\<rparr>), c, False)),
      deviceFlow = (\<lambda>c. (Inr (Some \<lparr>accessToken = ''device-token''\<rparr>), c @ [(alice, ''secret-a'')], True)),
      fetchResult = (\<lambda>n req. Inr okResponse)\<rparr>"

text \<open>The environment in which consent is revoked: both flows fail.\<close>

definition deniedEnv :: env where
  "deniedEnv =
     demoEnv\<lparr>silentFlow := (\<lambda>c a. (Inl (Error ''interaction_required''), c, False)),
             deviceFlow := (\<lambda>c. (Inl (Error ''authorization_declined''), c, False))\<rparr>"

text \<open>The environment in which every \<^verbatim>\<open>fetch\<close> is answered with status 429.\<close>

definition throttledEnv :: env where
  "throttledEnv = demoEnv\<lparr>fetchResult := (\<lambda>n req. Inr throttledResponse)\<rparr>"

text \<open>
  The environment in which every \<^verbatim>\<open>fetch\<close> is answered with status 429 and a
  \<^verbatim>\<open>Retry-After\<close> of 2147484 seconds.
\<close>

definition farEnv :: env where
  "farEnv =
     demoEnv\<lparr>fetchResult :=
       (\<lambda>n req. Inr (throttledResponse\<lparr>retryAfterHeader := Some ''2147484''\<rparr>))\<rparr>"

definition world0 :: world where
  "world0 =
     \<lparr>store = None, memCache = [], writes = [], authLog = [], fetches = 0, netLog = [],
      stderr = []\<rparr>"

section \<open>What a call leaves untouched\<close>

lemmas demo_defs = demoEnv_def deniedEnv_def throttledEnv_def farEnv_def world0_def alice_def
  bob_def okResponse_def throttledResponse_def

lemma fold_write_chars:
  "fold fs_apply (map (\<lambda>c. WriteData [c]) xs) (Some acc) = Some (acc @ xs)"
  by (induction xs arbitrary: acc) simp_all

lemma writeFileSync_upto_store:
  "store (writeFileSync_upto k d w) = (if k = 0 then store w else Some (take (k - 1) d))"
proof (cases k)
  case 0
  then show ?thesis by (simp add: writeFileSync_upto_def)
next
  case (Suc j)
  have "fold fs_apply (take (Suc j) (writeFileSync_steps d)) (store w)
          = fold fs_apply (map (\<lambda>c. WriteData [c]) (take j d)) (Some [])"
    by (simp add: writeFileSync_steps_def take_map)
  then show ?thesis
    using Suc by (simp add: writeFileSync_upto_def fold_write_chars)
qed

lemma writeFileSync_done:
  "writeFileSync d w = w\<lparr>store := Some d, writes := writes w @ [d]\<rparr>"
proof -
  have "fold fs_apply (take (length (writeFileSync_steps d)) (writeFileSync_steps d)) (store w)
          = Some d"
    by (simp add: writeFileSync_steps_def fold_write_chars)
  then show ?thesis
    by (simp add: writeFileSync_def writeFileSync_upto_def)
qed

lemmas pca_defs = pca_getAllAccounts_def pca_acquireTokenSilent_def
  pca_acquireTokenByDeviceCode_def cacheAccess_def beforeCacheAccess_def afterCacheAccess_def
  writeFileSync_done

lemma beforeCacheAccess_frame:
  assumes "beforeCacheAccess E w = Inr w1"
  shows "store w1 = store w \<and> writes w1 = writes w \<and> authLog w1 = authLog w
    \<and> fetches w1 = fetches w \<and> netLog w1 = netLog w \<and> stderr w1 = stderr w"
  using assms by (auto simp: beforeCacheAccess_def split: option.splits sum.splits)

lemma beforeCacheAccess_authLog:
  assumes "beforeCacheAccess E w = Inr w2"
  shows "beforeCacheAccess E (w\<lparr>authLog := l\<rparr>) = Inr (w2\<lparr>authLog := l\<rparr>)"
  using assms by (auto simp: beforeCacheAccess_def split: option.splits sum.splits)

lemma afterCacheAccess_frame:
  "authLog (afterCacheAccess E ch w) = authLog w"
  "fetches (afterCacheAccess E ch w) = fetches w"
  "netLog (afterCacheAccess E ch w) = netLog w"
  "stderr (afterCacheAccess E ch w) = stderr w"
  "memCache (afterCacheAccess E ch w) = memCache w"
  by (simp_all add: afterCacheAccess_def writeFileSync_done)

lemma afterCacheAccess_unchanged: "afterCacheAccess E False w = w"
  by (simp add: afterCacheAccess_def)

lemma cacheAccess_frame:
  assumes "cacheAccess E operation w = (r, w')"
  shows "authLog w' = authLog w \<and> fetches w' = fetches w \<and> netLog w' = netLog w
    \<and> stderr w' = stderr w"
  using assms
  by (auto simp: cacheAccess_def afterCacheAccess_frame split: sum.splits prod.splits
           dest: beforeCacheAccess_frame)

lemma pca_getAllAccounts_frame:
  assumes "pca_getAllAccounts E w = (r, w')"
  shows "authLog w' = authLog w @ [GetAllAccounts] \<and> fetches w' = fetches w
    \<and> netLog w' = netLog w \<and> stderr w' = stderr w"
  using assms cacheAccess_frame[of E _ "w\<lparr>authLog := authLog w @ [GetAllAccounts]\<rparr>" r w']
  by (simp add: pca_getAllAccounts_def)

lemma pca_getAllAccounts_store:
  assumes "pca_getAllAccounts E w = (r, w')"
  shows "store w' = store w \<and> writes w' = writes w"
  using assms
  by (auto simp: pca_getAllAccounts_def cacheAccess_def afterCacheAccess_unchanged
           split: sum.splits dest!: beforeCacheAccess_frame)

lemma pca_acquireTokenSilent_frame:
  assumes "pca_acquireTokenSilent E a w = (r, w')"
  shows "authLog w' = authLog w @ [AcquireTokenSilent a] \<and> fetches w' = fetches w
    \<and> netLog w' = netLog w \<and> stderr w' = stderr w"
  using assms cacheAccess_frame[of E _ "w\<lparr>authLog := authLog w @ [AcquireTokenSilent a]\<rparr>" r w']
  by (simp add: pca_acquireTokenSilent_def)

lemma pca_acquireTokenByDeviceCode_frame:
  assumes "pca_acquireTokenByDeviceCode E w = (r, w')"
  shows "authLog w' = authLog w @ [AcquireTokenByDeviceCode] \<and> fetches w' = fetches w
    \<and> netLog w' = netLog w \<and> stderr w' = stderr w"
  using assms cacheAccess_frame[of E _ "w\<lparr>authLog := authLog w @ [AcquireTokenByDeviceCode]\<rparr>" r w']
  by (simp add: pca_acquireTokenByDeviceCode_def)

lemma tryDeviceCode_authLog:
  "authLog (snd (tryDeviceCode E w)) = authLog w @ [AcquireTokenByDeviceCode]"
  by (auto simp: tryDeviceCode_def split: prod.splits sum.splits
           dest: pca_acquireTokenByDeviceCode_frame)

lemma trySilent_frame:
  assumes "trySilent E a w = (r, w')"
  shows "authLog w' = authLog w @ [AcquireTokenSilent a] \<and> fetches w' = fetches w
    \<and> netLog w' = netLog w"
  using assms
  by (auto simp: trySilent_def split: prod.splits sum.splits dest: pca_acquireTokenSilent_frame)

lemma tryDeviceCode_frame:
  assumes "tryDeviceCode E w = (r, w')"
  shows "authLog w' = authLog w @ [AcquireTokenByDeviceCode] \<and> fetches w' = fetches w
    \<and> netLog w' = netLog w"
  using assms
  by (auto simp: tryDeviceCode_def split: prod.splits sum.splits
           dest: pca_acquireTokenByDeviceCode_frame)

lemma getAccessToken_frame:
  assumes "getAccessToken E w = (r, w')"
  shows "fetches w' = fetches w \<and> netLog w' = netLog w"
  using assms
  by (auto simp: getAccessToken_def
           split: prod.splits sum.splits if_splits option.splits
           dest!: pca_getAllAccounts_frame trySilent_frame tryDeviceCode_frame)

section \<open>How a failed token request travels upwards\<close>

lemma graphRequest_token_failure:
  assumes "getAccessToken E w = (Inl e, w')"
  shows "graphRequest E endpoint meth body w = (Inl e, w')"
  using assms by (simp add: graphRequest_def)


lemma destructure_Some: "destructure (Some kvs) k = Inr (arg kvs k)"
  by (simp add: destructure_def arg_def)

lemma hasText_toStr: "hasText v \<Longrightarrow> toStr v = Inr (textOf v)"
  by (simp add: hasText_def textOf_def split: sum.splits)





section \<open>The paths through the API client and the dispatcher\<close>

lemma graphRequest_throttled:
  assumes tok: "getAccessToken E w = (Inr token, w1)"
    and first: "fetchResult E (fetches w1) (graphOptions endpoint meth body token) = Inr r1"
      "status r1 = 429"
  shows "graphRequest E endpoint meth body w =
     ((case fetchResult E (Suc (fetches w1)) (graphOptions endpoint meth body token) of
         Inl e \<Rightarrow> Inl e
       | Inr r2 \<Rightarrow> readResult E r2),
      w1\<lparr>fetches := Suc (Suc (fetches w1)),
         netLog := netLog w1 @ [Fetch (graphOptions endpoint meth body token),
                                SetTimeout (retryAfter r1),
                                Fetch (graphOptions endpoint meth body token)],
         stderr := stderr w1 @ [Throttled (retryAfter r1)]\<rparr>)"
  using assms
  by (simp add: graphRequest_def fetch_def retryOnce_def Let_def split: sum.splits)

lemma graphRequest_not_throttled:
  assumes tok: "getAccessToken E w = (Inr token, w1)"
    and first: "fetchResult E (fetches w1) (graphOptions endpoint meth body token) = Inr r1"
      "status r1 \<noteq> 429"
  shows "graphRequest E endpoint meth body w =
     (readResult E r1,
      w1\<lparr>fetches := Suc (fetches w1),
         netLog := netLog w1 @ [Fetch (graphOptions endpoint meth body token)]\<rparr>)"
  using assms
  by (simp add: graphRequest_def fetch_def Let_def)




lemma callTool_netLog:
  "netLog (snd (callTool E rq w)) = netLog (snd (toolSwitch E rq w))"
  by (simp add: callTool_def split: prod.splits sum.splits)

lemma callTool_fetches:
  "fetches (snd (callTool E rq w)) = fetches (snd (toolSwitch E rq w))"
  by (simp add: callTool_def split: prod.splits sum.splits)

lemma toolSwitch_uses_graphRequest:
  assumes "params_arguments rq = Some kvs" "params_name rq \<in> set toolNames"
    "params_name rq \<noteq> ''create_page''" "renders (params_name rq) kvs"
    "graphCall (params_name rq) kvs = (endpoint, meth, body)"
  shows "netLog (snd (toolSwitch E rq w)) = netLog (snd (graphRequest E endpoint meth body w))
    \<and> fetches (snd (toolSwitch E rq w)) = fetches (snd (graphRequest E endpoint meth body w))"
  using assms
  by (auto simp: toolNames_def toolSwitch_def graphCall_def destructure_Some renders_def
        interpolated_def hasText_toStr returnValue_def returnContent_def returnJson_def
        split: prod.splits sum.splits)

lemma six_names:
  assumes "name \<in> set toolNames" "name \<noteq> ''create_page''"
  shows "name = ''list_notebooks'' \<or> name = ''list_sections'' \<or> name = ''list_pages''
    \<or> name = ''read_content'' \<or> name = ''create_notebook'' \<or> name = ''create_section''"
  using assms by (simp add: toolNames_def)

lemma graphCall_requestOf:
  assumes "name \<in> set toolNames" "name \<noteq> ''create_page''"
    "graphCall name kvs = (endpoint, meth, body)"
  shows "graphOptions endpoint meth body token = requestOf name kvs token"
  using six_names[OF assms(1,2)] assms(3)
  by (elim disjE)
     (simp_all add: graphCall_def requestOf_def graphOptions_def GRAPH_ENDPOINT_def, auto)

lemma createPageRequest_requestOf:
  "createPageRequest (textOf (arg kvs ''sectionId'')) (textOf (arg kvs ''htmlContent'')) token
     = requestOf ''create_page'' kvs token"
  by (simp add: createPageRequest_def requestOf_def GRAPH_ENDPOINT_def)

lemma toolSwitch_create_page:
  assumes "params_arguments rq = Some kvs" "params_name rq = ''create_page''"
  shows "toolSwitch E rq w = createPage E (arg kvs ''sectionId'') (arg kvs ''htmlContent'') w"
  using assms by (simp add: toolSwitch_def destructure_Some)

lemma createPage_failed:
  assumes tok: "getAccessToken E w = (Inr token, w1)"
    and texts: "toStr sectionId = Inr s" "toStr htmlContent = Inr h"
    and resp: "fetchResult E (fetches w1) (createPageRequest s h token) = Inr r" "\<not> ok r"
  shows "createPage E sectionId htmlContent w =
     (Inl (Error (''Failed to create page: '' @ statusText r)),
      w1\<lparr>fetches := Suc (fetches w1),
         netLog := netLog w1 @ [Fetch (createPageRequest s h token)]\<rparr>)"
  using assms by (simp add: createPage_def fetch_def)


lemma createPage_fetches_le:
  "fetches (snd (createPage E sectionId htmlContent w)) \<le> Suc (fetches w)"
proof -
  obtain r w1 where g: "getAccessToken E w = (r, w1)"
    by (cases "getAccessToken E w")
  have "fetches w1 = fetches w"
    using getAccessToken_frame[OF g] by simp
  then show ?thesis
    using g
    by (auto simp: createPage_def fetch_def split: sum.splits option.splits prod.splits)
qed












section \<open>Runs on the concrete environment\<close>

lemma getAccessToken_demo:
  "getAccessToken (demoEnv\<lparr>fetchResult := f\<rparr>) world0 =
     (Inr ''device-token'',
      world0\<lparr>store := Some ''alice'', memCache := [(alice, ''secret-a'')],
             writes := [''alice''],
             authLog := [GetAllAccounts, AcquireTokenByDeviceCode]\<rparr>)"
  by (simp add: getAccessToken_def tryDeviceCode_def readAccessToken_def pca_defs demo_defs)


lemma showInt_MethodNotFound: "showInt MethodNotFound = ''-32601''"
  by (simp add: showInt_def MethodNotFound_def showNat.simps)

section \<open>The claims\<close>

subsection \<open>C1: an empty Token Cache\<close>

text \<open>
  C1. When the Token Cache is empty (\<^verbatim>\<open>getAllAccounts\<close> returns no accounts), the Access
  Token Provider goes on to the device code flow at once: the identity client is called
  for the accounts and then for the device code flow, never for silent renewal, and when
  that flow returns a result the Provider returns its access token.
\<close>

theorem getAccessToken_empty_cache:
  assumes "pca_getAllAccounts E w = (Inr [], w1)"
  shows "getAccessToken E w = tryDeviceCode E w1
    \<and> authLog (snd (getAccessToken E w)) = authLog w @ [GetAllAccounts, AcquireTokenByDeviceCode]
    \<and> (\<forall>res w2. pca_acquireTokenByDeviceCode E w1 = (Inr (Some res), w2)
          \<longrightarrow> getAccessToken E w = (Inr (accessToken res), w2))"
proof -
  have eq: "getAccessToken E w = tryDeviceCode E w1"
    using assms by (simp add: getAccessToken_def)
  have log: "authLog w1 = authLog w @ [GetAllAccounts]"
    using pca_getAllAccounts_frame[OF assms] by simp
  have "authLog (snd (getAccessToken E w)) = authLog w @ [GetAllAccounts, AcquireTokenByDeviceCode]"
    by (simp add: eq tryDeviceCode_authLog log)
  moreover have "\<forall>res w2. pca_acquireTokenByDeviceCode E w1 = (Inr (Some res), w2)
          \<longrightarrow> getAccessToken E w = (Inr (accessToken res), w2)"
    by (simp add: eq tryDeviceCode_def readAccessToken_def)
  ultimately show ?thesis using eq by blast
qed

theorem getAccessToken_empty_cache_witness:
  "getAccessToken demoEnv world0 =
     (Inr ''device-token'',
      world0\<lparr>store := Some ''alice'', memCache := [(alice, ''secret-a'')],
             writes := [''alice''],
             authLog := [GetAllAccounts, AcquireTokenByDeviceCode]\<rparr>)"
proof -
  let ?w1 = "world0\<lparr>authLog := [GetAllAccounts]\<rparr>"
  let ?w2 = "world0\<lparr>store := Some ''alice'', memCache := [(alice, ''secret-a'')],
             writes := [''alice''],
             authLog := [GetAllAccounts, AcquireTokenByDeviceCode]\<rparr>"
  have h: "pca_getAllAccounts demoEnv world0 = (Inr [], ?w1)"
    by (simp add: pca_defs demo_defs)
  have d: "pca_acquireTokenByDeviceCode demoEnv ?w1
             = (Inr (Some \<lparr>accessToken = ''device-token''\<rparr>), ?w2)"
    by (simp add: pca_defs demo_defs)
  have "getAccessToken demoEnv world0
          = (Inr (accessToken \<lparr>accessToken = ''device-token''\<rparr>), ?w2)"
    using getAccessToken_empty_cache[OF h] d by blast
  then show ?thesis by simp
qed

subsection \<open>C2: a blob that does not deserialize\<close>




subsection \<open>C3: how the store is saved\<close>

text \<open>
  C3, as the code has it. A save is one \<^verbatim>\<open>writeFileSync\<close> on the store itself, made only
  when \<^verbatim>\<open>cacheHasChanged\<close> is set: the file is truncated and then written in place. A save
  that runs to its end leaves exactly the new blob. A save that is cut off leaves the old
  content when it is cut off before the truncation, and otherwise what has been written of
  the new blob so far: the empty text right after the truncation, then longer and longer
  beginnings of the new blob.
\<close>

theorem save_is_in_place:
  "afterCacheAccess E cacheHasChanged w
     = afterCacheAccess_upto (Suc (length (serialize E (memCache w)))) E cacheHasChanged w
   \<and> store (afterCacheAccess E True w) = Some (serialize E (memCache w))
   \<and> afterCacheAccess E False w = w
   \<and> store (afterCacheAccess_upto 1 E True w) = Some []
   \<and> (\<forall>k. store (afterCacheAccess_upto k E True w)
          = (if k = 0 then store w else Some (take (k - 1) (serialize E (memCache w)))))"
proof -
  have a: "afterCacheAccess E cacheHasChanged w
     = afterCacheAccess_upto (Suc (length (serialize E (memCache w)))) E cacheHasChanged w"
    by (simp add: afterCacheAccess_def afterCacheAccess_upto_def writeFileSync_def
          writeFileSync_steps_def)
  have b: "store (afterCacheAccess E True w) = Some (serialize E (memCache w))"
    by (simp add: afterCacheAccess_def writeFileSync_done)
  have c: "\<forall>k. store (afterCacheAccess_upto k E True w)
          = (if k = 0 then store w else Some (take (k - 1) (serialize E (memCache w))))"
    by (simp add: afterCacheAccess_upto_def writeFileSync_upto_store)
  have d: "store (afterCacheAccess_upto 1 E True w) = Some []"
    by (simp add: afterCacheAccess_upto_def writeFileSync_upto_store)
  show ?thesis
    using a b c d by (simp add: afterCacheAccess_unchanged)
qed

theorem save_is_in_place_witness:
  "store (afterCacheAccess demoEnv True
     (world0\<lparr>store := Some ''alice'', memCache := [(alice, ''secret-a''), (bob, ''secret-b'')]\<rparr>))
     = Some ''alice,bob''
   \<and> store (afterCacheAccess_upto 1 demoEnv True
     (world0\<lparr>store := Some ''alice'', memCache := [(alice, ''secret-a''), (bob, ''secret-b'')]\<rparr>))
     = Some []"
proof -
  have s: "serialize demoEnv [(alice, ''secret-a''), (bob, ''secret-b'')] = ''alice,bob''"
    by (simp add: demo_defs)
  note T = save_is_in_place[of demoEnv True
      "world0\<lparr>store := Some ''alice'', memCache := [(alice, ''secret-a''), (bob, ''secret-b'')]\<rparr>"]
  note t2 = T[THEN conjunct2, THEN conjunct1]
  note t4 = T[THEN conjunct2, THEN conjunct2, THEN conjunct2, THEN conjunct1]
  show ?thesis
    using t2 t4 by (simp add: s)
qed

text \<open>
  C3 as stated does not hold: a save of the blob \<open>alice,bob\<close> over the valid blob
  \<open>alice\<close> that is cut off after its first step leaves the empty text in the store, and
  one that is cut off after eight steps leaves \<open>alice,b\<close>; neither is the old blob or the
  new one.
\<close>

theorem save_cut_off_loses_old_blob:
  "deserialize demoEnv ''alice'' [] = Inr [(alice, ''secret-a'')]
   \<and> serialize demoEnv [(alice, ''secret-a''), (bob, ''secret-b'')] = ''alice,bob''
   \<and> store (afterCacheAccess_upto 1 demoEnv True
        (world0\<lparr>store := Some ''alice'',
                memCache := [(alice, ''secret-a''), (bob, ''secret-b'')]\<rparr>)) = Some []
   \<and> store (afterCacheAccess_upto 8 demoEnv True
        (world0\<lparr>store := Some ''alice'',
                memCache := [(alice, ''secret-a''), (bob, ''secret-b'')]\<rparr>)) = Some ''alice,b''
   \<and> Some [] \<noteq> Some ''alice'' \<and> Some [] \<noteq> Some ''alice,bob''
   \<and> Some ''alice,b'' \<noteq> Some ''alice'' \<and> Some ''alice,b'' \<noteq> Some ''alice,bob''"
proof -
  have s: "serialize demoEnv [(alice, ''secret-a''), (bob, ''secret-b'')] = ''alice,bob''"
    by (simp add: demo_defs)
  show ?thesis
    by (simp add: afterCacheAccess_upto_def writeFileSync_upto_store s)
       (simp add: demo_defs)
qed

subsection \<open>C4: the arguments of a tool call\<close>




subsection \<open>C5: the rate limit\<close>




subsection \<open>C6: which account is renewed\<close>

text \<open>
  C6, as the code has it. When \<^verbatim>\<open>getAllAccounts\<close> returns one or more accounts, silent
  renewal is tried for the first account of the list in the order in which the client
  returns it (\<^verbatim>\<open>accounts[0]\<close>); the Provider puts the accounts in no order of its own.
  The other accounts play no part: the outcome is the token of that silent renewal, or
  else the outcome of the device code flow.
\<close>

theorem first_listed_account_is_chosen:
  assumes "pca_getAllAccounts E w = (Inr accounts, w1)" "accounts \<noteq> []"
  shows "getAccessToken E w =
           (case trySilent E (hd accounts) w1 of
              (Some token, w2) \<Rightarrow> (Inr token, w2)
            | (None, w2) \<Rightarrow> tryDeviceCode E w2)
    \<and> take 2 (drop (length (authLog w)) (authLog (snd (getAccessToken E w))))
        = [GetAllAccounts, AcquireTokenSilent (hd accounts)]"
proof -
  have hd: "accounts ! 0 = hd accounts"
    using assms(2) by (simp add: hd_conv_nth)
  have eq: "getAccessToken E w =
           (case trySilent E (hd accounts) w1 of
              (Some token, w2) \<Rightarrow> (Inr token, w2)
            | (None, w2) \<Rightarrow> tryDeviceCode E w2)"
    using assms by (simp add: getAccessToken_def hd)
  have l1: "authLog w1 = authLog w @ [GetAllAccounts]"
    using pca_getAllAccounts_frame[OF assms(1)] by simp
  obtain t w2 where ts: "trySilent E (hd accounts) w1 = (t, w2)"
    by (cases "trySilent E (hd accounts) w1")
  have l2: "authLog w2 = authLog w @ [GetAllAccounts, AcquireTokenSilent (hd accounts)]"
    using trySilent_frame[OF ts] l1 by simp
  have "take 2 (drop (length (authLog w)) (authLog (snd (getAccessToken E w))))
        = [GetAllAccounts, AcquireTokenSilent (hd accounts)]"
  proof (cases t)
    case None
    then show ?thesis
      using eq ts l2 by (simp add: tryDeviceCode_authLog)
  next
    case (Some token)
    then show ?thesis
      using eq ts l2 by simp
  qed
  then show ?thesis using eq by blast
qed

theorem first_listed_account_is_chosen_witness:
  "getAccessToken demoEnv (world0\<lparr>store := Some ''bob,alice''\<rparr>) =
     (Inr ''silent-bob'',
      world0\<lparr>store := Some ''bob,alice'',
             memCache := [(bob, ''secret-b''), (alice, ''secret-a'')],
             authLog := [GetAllAccounts, AcquireTokenSilent bob]\<rparr>)"
proof -
  let ?w = "world0\<lparr>store := Some ''bob,alice''\<rparr>"
  let ?w1 = "world0\<lparr>store := Some ''bob,alice'',
                    memCache := [(bob, ''secret-b''), (alice, ''secret-a'')],
                    authLog := [GetAllAccounts]\<rparr>"
  have a: "pca_getAllAccounts demoEnv ?w = (Inr [bob, alice], ?w1)"
    by (simp add: pca_defs demo_defs)
  have b: "[bob, alice] \<noteq> []" by simp
  have "getAccessToken demoEnv ?w =
           (case trySilent demoEnv (hd [bob, alice]) ?w1 of
              (Some token, w2) \<Rightarrow> (Inr token, w2)
            | (None, w2) \<Rightarrow> tryDeviceCode demoEnv w2)"
    using first_listed_account_is_chosen[OF a b] by (rule conjunct1)
  then show ?thesis
    by (simp add: trySilent_def readAccessToken_def pca_defs demo_defs)
qed

text \<open>
  C6 as stated does not hold: two stores with the same two accounts, listed in the two
  possible orders, make the Provider renew for different accounts. The choice follows the
  position in the list, not an ordering of the accounts such as by identifier.
\<close>

theorem account_choice_follows_listing_order:
  "fst (pca_getAllAccounts demoEnv (world0\<lparr>store := Some ''alice,bob''\<rparr>)) = Inr [alice, bob]
   \<and> fst (pca_getAllAccounts demoEnv (world0\<lparr>store := Some ''bob,alice''\<rparr>)) = Inr [bob, alice]
   \<and> set [alice, bob] = set [bob, alice]
   \<and> authLog (snd (getAccessToken demoEnv (world0\<lparr>store := Some ''alice,bob''\<rparr>)))
       = [GetAllAccounts, AcquireTokenSilent alice]
   \<and> authLog (snd (getAccessToken demoEnv (world0\<lparr>store := Some ''bob,alice''\<rparr>)))
       = [GetAllAccounts, AcquireTokenSilent bob]
   \<and> AcquireTokenSilent alice \<noteq> AcquireTokenSilent bob"
  by (simp add: getAccessToken_def trySilent_def readAccessToken_def pca_defs demo_defs insert_commute)

subsection \<open>C7: a silent renewal that changes nothing\<close>

text \<open>
  C7. When silent renewal succeeds for the first account and reports the cache as
  unchanged, the token request returns the token of the renewal and leaves the Credential
  Store as it was: the file has the same content and no \<^verbatim>\<open>writeFileSync\<close> has been made.
\<close>

theorem silent_success_leaves_store:
  assumes accts: "pca_getAllAccounts E w = (Inr accounts, w1)" "accounts \<noteq> []"
    and load: "beforeCacheAccess E w1 = Inr w2"
    and silent: "silentFlow E (memCache w2) (accounts ! 0) = (Inr (Some res), c, False)"
  shows "fst (getAccessToken E w) = Inr (accessToken res)
    \<and> store (snd (getAccessToken E w)) = store w
    \<and> writes (snd (getAccessToken E w)) = writes w
    \<and> authLog (snd (getAccessToken E w))
        = authLog w @ [GetAllAccounts, AcquireTokenSilent (accounts ! 0)]"
proof -
  let ?l = "authLog w1 @ [AcquireTokenSilent (accounts ! 0)]"
  let ?w3 = "w2\<lparr>authLog := ?l, memCache := c\<rparr>"
  have "pca_acquireTokenSilent E (accounts ! 0) w1 = (Inr (Some res), ?w3)"
    using beforeCacheAccess_authLog[OF load, of ?l] silent
    by (simp add: pca_acquireTokenSilent_def cacheAccess_def afterCacheAccess_unchanged)
  then have ts: "trySilent E (accounts ! 0) w1 = (Some (accessToken res), ?w3)"
    by (simp add: trySilent_def readAccessToken_def)
  have g: "getAccessToken E w = (Inr (accessToken res), ?w3)"
    using accts ts by (simp add: getAccessToken_def)
  have "store w2 = store w1" "writes w2 = writes w1"
    using beforeCacheAccess_frame[OF load] by simp_all
  moreover have "store w1 = store w" "writes w1 = writes w"
    using pca_getAllAccounts_store[OF accts(1)] by simp_all
  moreover have "authLog w1 = authLog w @ [GetAllAccounts]"
    using pca_getAllAccounts_frame[OF accts(1)] by simp
  ultimately show ?thesis using g by simp
qed

theorem silent_success_leaves_store_witness:
  "fst (getAccessToken demoEnv (world0\<lparr>store := Some ''alice''\<rparr>)) = Inr ''silent-alice''
   \<and> store (snd (getAccessToken demoEnv (world0\<lparr>store := Some ''alice''\<rparr>))) = Some ''alice''
   \<and> writes (snd (getAccessToken demoEnv (world0\<lparr>store := Some ''alice''\<rparr>))) = []"
proof -
  let ?w = "world0\<lparr>store := Some ''alice''\<rparr>"
  let ?w1 = "world0\<lparr>store := Some ''alice'', memCache := [(alice, ''secret-a'')],
                    authLog := [GetAllAccounts]\<rparr>"
  have a: "pca_getAllAccounts demoEnv ?w = (Inr [alice], ?w1)"
    by (simp add: pca_defs demo_defs)
  have b: "[alice] \<noteq> []" by simp
  have c: "beforeCacheAccess demoEnv ?w1 = Inr ?w1"
    by (simp add: pca_defs demo_defs)
  have d: "silentFlow demoEnv (memCache ?w1) ([alice] ! 0)
             = (Inr (Some \<lparr>accessToken = ''silent-alice''\<rparr>), [(alice, ''secret-a'')], False)"
    by (simp add: demo_defs)
  show ?thesis
    using silent_success_leaves_store[OF a b c d] by (simp add: world0_def)
qed

subsection \<open>C8: a silent renewal that fails\<close>

text \<open>
  C8. When silent renewal fails (it throws, or its result is \<^verbatim>\<open>null\<close>), the Provider logs
  the error and goes on to the device code flow: silent renewal is called once, the device
  code flow once. When the device code flow fails too, its error is the outcome of the
  Provider, and a request of the Remote Resource API client that asked for the token ends
  with that error before any \<^verbatim>\<open>fetch\<close>.
\<close>

theorem silent_failure_falls_through:
  assumes accts: "pca_getAllAccounts E w = (Inr accounts, w1)" "accounts \<noteq> []"
    and silent: "pca_acquireTokenSilent E (accounts ! 0) w1 = (r, w2)" "readAccessToken r = Inl e1"
  shows "getAccessToken E w = tryDeviceCode E (w2\<lparr>stderr := stderr w2 @ [SilentFailed e1]\<rparr>)
    \<and> authLog (snd (getAccessToken E w))
        = authLog w @ [GetAllAccounts, AcquireTokenSilent (accounts ! 0), AcquireTokenByDeviceCode]
    \<and> (\<forall>r' w3 e2.
          pca_acquireTokenByDeviceCode E (w2\<lparr>stderr := stderr w2 @ [SilentFailed e1]\<rparr>) = (r', w3)
          \<and> readAccessToken r' = Inl e2
          \<longrightarrow> fst (getAccessToken E w) = Inl e2
              \<and> (\<forall>endpoint meth body.
                    fst (graphRequest E endpoint meth body w) = Inl e2
                  \<and> netLog (snd (graphRequest E endpoint meth body w)) = netLog w
                  \<and> fetches (snd (graphRequest E endpoint meth body w)) = fetches w))"
proof -
  let ?w2 = "w2\<lparr>stderr := stderr w2 @ [SilentFailed e1]\<rparr>"
  have ts: "trySilent E (accounts ! 0) w1 = (None, ?w2)"
    using silent by (simp add: trySilent_def)
  have eq: "getAccessToken E w = tryDeviceCode E ?w2"
    using accts ts by (simp add: getAccessToken_def)
  have l1: "authLog w1 = authLog w @ [GetAllAccounts]"
    using pca_getAllAccounts_frame[OF accts(1)] by simp
  have l2: "authLog w2 = authLog w1 @ [AcquireTokenSilent (accounts ! 0)]"
    using pca_acquireTokenSilent_frame[OF silent(1)] by simp
  have log: "authLog (snd (getAccessToken E w))
        = authLog w @ [GetAllAccounts, AcquireTokenSilent (accounts ! 0), AcquireTokenByDeviceCode]"
    by (simp add: eq tryDeviceCode_authLog l1 l2)
  have fail: "fst (getAccessToken E w) = Inl e2
      \<and> (\<forall>endpoint meth body.
            fst (graphRequest E endpoint meth body w) = Inl e2
          \<and> netLog (snd (graphRequest E endpoint meth body w)) = netLog w
          \<and> fetches (snd (graphRequest E endpoint meth body w)) = fetches w)"
    if d: "pca_acquireTokenByDeviceCode E ?w2 = (r', w3)" "readAccessToken r' = Inl e2"
    for r' w3 e2
  proof -
    let ?w3 = "w3\<lparr>stderr := stderr w3 @ [DeviceCodeFailed e2]\<rparr>"
    have g: "getAccessToken E w = (Inl e2, ?w3)"
      using d by (simp add: eq tryDeviceCode_def)
    have gr: "graphRequest E endpoint meth body w = (Inl e2, ?w3)" for endpoint meth body
      using g by (rule graphRequest_token_failure)
    have "netLog ?w3 = netLog w" "fetches ?w3 = fetches w"
      using getAccessToken_frame[OF g] by simp_all
    then show ?thesis using g gr by simp
  qed
  show ?thesis using eq log fail by blast
qed

theorem silent_failure_falls_through_witness:
  "fst (getAccessToken deniedEnv (world0\<lparr>store := Some ''alice''\<rparr>)) = Inl (Error ''authorization_declined'')
   \<and> authLog (snd (getAccessToken deniedEnv (world0\<lparr>store := Some ''alice''\<rparr>)))
       = [GetAllAccounts, AcquireTokenSilent alice, AcquireTokenByDeviceCode]
   \<and> fst (graphRequest deniedEnv ''/me/onenote/notebooks'' ''GET'' JNull (world0\<lparr>store := Some ''alice''\<rparr>))
       = Inl (Error ''authorization_declined'')
   \<and> netLog (snd (graphRequest deniedEnv ''/me/onenote/notebooks'' ''GET'' JNull (world0\<lparr>store := Some ''alice''\<rparr>))) = []"
proof -
  let ?w = "world0\<lparr>store := Some ''alice''\<rparr>"
  let ?w1 = "world0\<lparr>store := Some ''alice'', memCache := [(alice, ''secret-a'')],
                    authLog := [GetAllAccounts]\<rparr>"
  let ?w2 = "world0\<lparr>store := Some ''alice'', memCache := [(alice, ''secret-a'')],
                    authLog := [GetAllAccounts, AcquireTokenSilent alice]\<rparr>"
  let ?w2' = "?w2\<lparr>stderr := stderr ?w2 @ [SilentFailed (Error ''interaction_required'')]\<rparr>"
  let ?w3 = "world0\<lparr>store := Some ''alice'', memCache := [(alice, ''secret-a'')],
                    authLog := [GetAllAccounts, AcquireTokenSilent alice, AcquireTokenByDeviceCode],
                    stderr := [SilentFailed (Error ''interaction_required'')]\<rparr>"
  have a: "pca_getAllAccounts deniedEnv ?w = (Inr [alice], ?w1)"
    by (simp add: pca_defs demo_defs)
  have b: "[alice] \<noteq> []" by simp
  have c: "pca_acquireTokenSilent deniedEnv ([alice] ! 0) ?w1 = (Inl (Error ''interaction_required''), ?w2)"
    by (simp add: pca_defs demo_defs)
  have d: "readAccessToken (Inl (Error ''interaction_required'') :: auth_result option outcome)
             = Inl (Error ''interaction_required'')"
    by (simp add: readAccessToken_def)
  have e: "pca_acquireTokenByDeviceCode deniedEnv ?w2' = (Inl (Error ''authorization_declined''), ?w3)
           \<and> readAccessToken (Inl (Error ''authorization_declined'') :: auth_result option outcome)
               = Inl (Error ''authorization_declined'')"
    by (simp add: pca_defs demo_defs readAccessToken_def)
  note T = silent_failure_falls_through[OF a b c d]
  have t2: "authLog (snd (getAccessToken deniedEnv ?w))
              = authLog ?w @ [GetAllAccounts, AcquireTokenSilent ([alice] ! 0), AcquireTokenByDeviceCode]"
    using T by (rule conjunct2[THEN conjunct1])
  have t3: "fst (getAccessToken deniedEnv ?w) = Inl (Error ''authorization_declined'')
      \<and> (\<forall>endpoint meth body.
            fst (graphRequest deniedEnv endpoint meth body ?w) = Inl (Error ''authorization_declined'')
          \<and> netLog (snd (graphRequest deniedEnv endpoint meth body ?w)) = netLog ?w
          \<and> fetches (snd (graphRequest deniedEnv endpoint meth body ?w)) = fetches ?w)"
    using T[THEN conjunct2, THEN conjunct2] e by blast
  show ?thesis using t2 t3 by (simp add: world0_def)
qed

subsection \<open>C9: the request of create_page\<close>

text \<open>
  C9. \<^verbatim>\<open>create_page\<close> makes its own \<^verbatim>\<open>fetch\<close>, at most one in a call whatever the
  arguments and the responses are. When its two arguments have a text and the response is
  not \<^verbatim>\<open>ok\<close> (status 429 included) the call has fetched exactly once, and its error
  result carries only \<open>Failed to create page: \<close> and the status text, whatever the body
  of the response. Each of the six other operations goes through \<^verbatim>\<open>graphRequest\<close>: on a
  first response with status 429 it waits and fetches a second time.
\<close>

theorem create_page_is_not_retried:
  assumes args: "params_arguments rq = Some kvs"
    and tok: "getAccessToken E w = (Inr token, w1)"
    and texts: "renders (params_name rq) kvs"
  shows "(params_name rq = ''create_page'' \<longrightarrow>
           (\<forall>r. fetchResult E (fetches w) (requestOf ''create_page'' kvs token) = Inr r \<and> \<not> ok r
              \<longrightarrow> fst (callTool E rq w) =
                     \<lparr>content = Stringify (JObj [(''error'',
                          JStr (''Failed to create page: '' @ statusText r))]),
                      isError = True\<rparr>
                \<and> netLog (snd (callTool E rq w))
                    = netLog w @ [Fetch (requestOf ''create_page'' kvs token)]
                \<and> fetches (snd (callTool E rq w)) = fetches w + 1))
    \<and> (params_name rq \<in> set toolNames \<and> params_name rq \<noteq> ''create_page'' \<longrightarrow>
           (\<forall>r1. fetchResult E (fetches w) (requestOf (params_name rq) kvs token) = Inr r1
                \<and> status r1 = 429
              \<longrightarrow> netLog (snd (callTool E rq w))
                    = netLog w @ [Fetch (requestOf (params_name rq) kvs token),
                                  SetTimeout (retryAfter r1),
                                  Fetch (requestOf (params_name rq) kvs token)]
                \<and> fetches (snd (callTool E rq w)) = fetches w + 2))
    \<and> (\<forall>E' rq' kvs' w'. params_arguments rq' = Some kvs' \<and> params_name rq' = ''create_page''
          \<longrightarrow> fetches (snd (callTool E' rq' w')) \<le> fetches w' + 1)"
proof -
  have fr: "fetches w1 = fetches w" "netLog w1 = netLog w"
    using getAccessToken_frame[OF tok] by simp_all
  have page: "fst (callTool E rq w) =
                     \<lparr>content = Stringify (JObj [(''error'',
                          JStr (''Failed to create page: '' @ statusText r))]),
                      isError = True\<rparr>
                \<and> netLog (snd (callTool E rq w))
                    = netLog w @ [Fetch (requestOf ''create_page'' kvs token)]
                \<and> fetches (snd (callTool E rq w)) = fetches w + 1"
    if name: "params_name rq = ''create_page''"
      and resp: "fetchResult E (fetches w) (requestOf ''create_page'' kvs token) = Inr r" "\<not> ok r"
    for r
  proof -
    let ?s = "textOf (arg kvs ''sectionId'')"
    let ?h = "textOf (arg kvs ''htmlContent'')"
    have t: "toStr (arg kvs ''sectionId'') = Inr ?s" "toStr (arg kvs ''htmlContent'') = Inr ?h"
      using texts name by (simp_all add: renders_def interpolated_def hasText_toStr)
    have rq: "createPageRequest ?s ?h token = requestOf ''create_page'' kvs token"
      by (rule createPageRequest_requestOf)
    have "fetchResult E (fetches w1) (createPageRequest ?s ?h token) = Inr r"
      using resp(1) by (simp add: rq fr)
    from createPage_failed[OF tok t this resp(2)] show ?thesis
      by (simp add: callTool_def toolSwitch_create_page[OF args name] rq fr)
  qed
  have six: "netLog (snd (callTool E rq w))
                    = netLog w @ [Fetch (requestOf (params_name rq) kvs token),
                                  SetTimeout (retryAfter r1),
                                  Fetch (requestOf (params_name rq) kvs token)]
                \<and> fetches (snd (callTool E rq w)) = fetches w + 2"
    if name: "params_name rq \<in> set toolNames" "params_name rq \<noteq> ''create_page''"
      and resp: "fetchResult E (fetches w) (requestOf (params_name rq) kvs token) = Inr r1"
        "status r1 = 429"
    for r1
  proof -
    obtain endpoint meth body where gc: "graphCall (params_name rq) kvs = (endpoint, meth, body)"
      by (cases "graphCall (params_name rq) kvs")
    have rq: "graphOptions endpoint meth body token = requestOf (params_name rq) kvs token"
      using name gc by (rule graphCall_requestOf)
    have "fetchResult E (fetches w1) (graphOptions endpoint meth body token) = Inr r1"
      using resp(1) by (simp add: rq fr)
    from graphRequest_throttled[OF tok this resp(2)]
      toolSwitch_uses_graphRequest[OF args name texts gc, of E w]
    show ?thesis
      by (simp add: callTool_netLog callTool_fetches rq fr)
  qed
  have bound: "fetches (snd (callTool E' rq' w')) \<le> fetches w' + 1"
    if "params_arguments rq' = Some kvs'" "params_name rq' = ''create_page''"
    for E' rq' kvs' w'
    using createPage_fetches_le[of E' "arg kvs' ''sectionId''" "arg kvs' ''htmlContent''" w']
    by (simp add: callTool_fetches toolSwitch_create_page[OF that])
  show ?thesis using page six bound by blast
qed

theorem create_page_is_not_retried_witness:
  "fst (callTool throttledEnv
          \<lparr>params_name = ''create_page'',
           params_arguments = Some [(''sectionId'', JStr ''s1''), (''htmlContent'', JStr ''hi'')]\<rparr>
          world0)
     = \<lparr>content = Stringify (JObj [(''error'', JStr ''Failed to create page: Too Many Requests'')]),
        isError = True\<rparr>
   \<and> fetches (snd (callTool throttledEnv
          \<lparr>params_name = ''create_page'',
           params_arguments = Some [(''sectionId'', JStr ''s1''), (''htmlContent'', JStr ''hi'')]\<rparr>
          world0)) = 1
   \<and> fetches (snd (callTool throttledEnv
          \<lparr>params_name = ''list_pages'',
           params_arguments = Some [(''sectionId'', JStr ''s1''), (''htmlContent'', JStr ''hi'')]\<rparr>
          world0)) = 2"
proof -
  let ?kvs = "[(''sectionId'', JStr ''s1''), (''htmlContent'', JStr ''hi'')]"
  let ?page = "\<lparr>params_name = ''create_page'', params_arguments = Some ?kvs\<rparr>"
  let ?list = "\<lparr>params_name = ''list_pages'', params_arguments = Some ?kvs\<rparr>"
  let ?w1 = "world0\<lparr>store := Some ''alice'', memCache := [(alice, ''secret-a'')],
             writes := [''alice''],
             authLog := [GetAllAccounts, AcquireTokenByDeviceCode]\<rparr>"
  have tok: "getAccessToken throttledEnv world0 = (Inr ''device-token'', ?w1)"
    unfolding throttledEnv_def by (rule getAccessToken_demo)
  have a1: "params_arguments ?page = Some ?kvs" by simp
  have a2: "params_arguments ?list = Some ?kvs" by simp
  have r1: "renders (params_name ?page) ?kvs"
    by (simp add: renders_def interpolated_def hasText_def arg_def)
  have r2: "renders (params_name ?list) ?kvs"
    by (simp add: renders_def interpolated_def hasText_def arg_def)
  have p: "params_name ?page = ''create_page''
      \<and> fetchResult throttledEnv (fetches world0) (requestOf ''create_page'' ?kvs ''device-token'')
          = Inr throttledResponse
      \<and> \<not> ok throttledResponse"
    by (simp add: throttledEnv_def throttledResponse_def ok_def)
  have l: "params_name ?list \<in> set toolNames \<and> params_name ?list \<noteq> ''create_page''
      \<and> fetchResult throttledEnv (fetches world0)
            (requestOf (params_name ?list) ?kvs ''device-token'') = Inr throttledResponse
      \<and> status throttledResponse = 429"
    by (simp add: throttledEnv_def throttledResponse_def toolNames_def)
  have t1: "fst (callTool throttledEnv ?page world0) =
              \<lparr>content = Stringify (JObj [(''error'',
                   JStr (''Failed to create page: '' @ statusText throttledResponse))]),
               isError = True\<rparr>
      \<and> fetches (snd (callTool throttledEnv ?page world0)) = fetches world0 + 1"
    using create_page_is_not_retried[OF a1 tok r1] p by blast
  have t2: "fetches (snd (callTool throttledEnv ?list world0)) = fetches world0 + 2"
    using create_page_is_not_retried[OF a2 tok r2] l by blast
  have st: "statusText throttledResponse = ''Too Many Requests''" "fetches world0 = 0"
    by (simp_all add: throttledResponse_def world0_def)
  show ?thesis using t1 t2 by (simp add: st)
qed

subsection \<open>C10: an unknown tool\<close>

text \<open>
  C10. A call whose tool name is none of the seven operations returns an error result:
  \<^verbatim>\<open>isError\<close> is set and the text is the message of the \<^verbatim>\<open>McpError\<close> thrown in the
  \<^verbatim>\<open>default\<close> case, which ends with \<open>Unknown tool: \<close> and the name. Nothing else
  happens but the line on \<^verbatim>\<open>console.error\<close>.
\<close>

theorem unknown_tool_is_error_result:
  assumes "params_name rq \<notin> set toolNames"
  shows "callTool E rq w =
     (\<lparr>content = Stringify (JObj [(''error'',
          JStr (''MCP error -32601: Unknown tool: '' @ params_name rq))]),
       isError = True\<rparr>,
      w\<lparr>stderr := stderr w
           @ [ToolFailed (McpError MethodNotFound (''Unknown tool: '' @ params_name rq))]\<rparr>)"
  using assms
  by (simp add: callTool_def toolSwitch_def toolNames_def showInt_MethodNotFound)

theorem unknown_tool_is_error_result_witness:
  "callTool demoEnv \<lparr>params_name = ''delete_page'', params_arguments = None\<rparr> world0 =
     (\<lparr>content = Stringify (JObj [(''error'', JStr ''MCP error -32601: Unknown tool: delete_page'')]),
       isError = True\<rparr>,
      world0\<lparr>stderr := [ToolFailed (McpError MethodNotFound ''Unknown tool: delete_page'')]\<rparr>)"
proof -
  have "params_name \<lparr>params_name = ''delete_page'', params_arguments = None\<rparr> \<notin> set toolNames"
    by (simp add: toolNames_def)
  from unknown_tool_is_error_result[OF this, of demoEnv world0] show ?thesis
    by (simp add: world0_def)
qed

end
